theory Spec2Isabelle
  imports Complex_Main
begin

section \<open>Python values and exceptions\<close>

text \<open>
  The functions of \<^verbatim>\<open>sharedcode/helper.py\<close> work on decoded JSON documents. A decoded
  document is a value of \<open>pyval\<close>: a dict is an association list with string keys (a
  lookup takes the first binding of a key), a finite float is represented by the real
  number it denotes (the code performs no float arithmetic), and a string is a list of
  characters.
\<close>

datatype pyval =
    PNone
  | PBool bool
  | PInt int
  | PFloat real
  | PStr string
  | PList "pyval list"
  | PDict "(string \<times> pyval) list"

text \<open>
  An exception is its class and the text \<^verbatim>\<open>str(e)\<close> gives for it. \<open>OtherException n\<close>
  is any other class derived from \<^verbatim>\<open>Exception\<close>; \<open>OtherBaseException n\<close> is a class derived
  from \<^verbatim>\<open>BaseException\<close> only (\<^verbatim>\<open>KeyboardInterrupt\<close>, \<^verbatim>\<open>SystemExit\<close>), which an
  \<^verbatim>\<open>except Exception\<close> clause does not catch.
\<close>

datatype exn_class =
    AssertionError
  | KeyError
  | TypeError
  | ValueError
  | OtherException string
  | OtherBaseException string

datatype pyexn = PyExn (exn_class: exn_class) (exn_msg: string)

fun is_Exception :: "pyexn \<Rightarrow> bool" where
  "is_Exception (PyExn (OtherBaseException n) m) = False"
| "is_Exception (PyExn c m) = True"

definition quoted :: "string \<Rightarrow> string" where
  "quoted s = [CHR 0x27] @ s @ [CHR 0x27]"

fun type_name :: "pyval \<Rightarrow> string" where
  "type_name PNone = ''NoneType''"
| "type_name (PBool b) = ''bool''"
| "type_name (PInt n) = ''int''"
| "type_name (PFloat r) = ''float''"
| "type_name (PStr s) = ''str''"
| "type_name (PList xs) = ''list''"
| "type_name (PDict kvs) = ''dict''"

text \<open>
  \<^verbatim>\<open>v[k]\<close> for a string key \<open>k\<close>: only a dict can be subscripted by a string. The text of
  a \<^verbatim>\<open>KeyError\<close> is the \<^verbatim>\<open>repr\<close> of the key, written here as the key in single quotes
  (exact for a key without quotes, backslashes or control characters); the texts of
  the \<^verbatim>\<open>TypeError\<close>s are CPython's.
\<close>

fun getitem :: "pyval \<Rightarrow> string \<Rightarrow> pyexn + pyval" where
  "getitem (PDict kvs) k =
     (case map_of kvs k of
        Some x \<Rightarrow> Inr x
      | None \<Rightarrow> Inl (PyExn KeyError (quoted k)))"
| "getitem (PList xs) k =
     Inl (PyExn TypeError ''list indices must be integers or slices, not str'')"
| "getitem (PStr s) k =
     Inl (PyExn TypeError (''string indices must be integers, not '' @ quoted ''str''))"
| "getitem v k =
     Inl (PyExn TypeError (quoted (type_name v) @ '' object is not subscriptable''))"

fun starts_with :: "string \<Rightarrow> string \<Rightarrow> bool" where
  "starts_with s [] = True"
| "starts_with [] (c # cs) = False"
| "starts_with (a # s) (c # cs) = (a = c \<and> starts_with s cs)"

fun has_substring :: "string \<Rightarrow> string \<Rightarrow> bool" where
  "has_substring [] k = (k = [])"
| "has_substring (a # s) k = (starts_with (a # s) k \<or> has_substring s k)"

text \<open>
  \<^verbatim>\<open>k in v\<close> for a string \<open>k\<close>: key membership in a dict, element membership in a list,
  substring test in a string, and a \<^verbatim>\<open>TypeError\<close> for a value that is not a container.
\<close>

fun contains :: "pyval \<Rightarrow> string \<Rightarrow> pyexn + bool" where
  "contains (PDict kvs) k = Inr (k \<in> set (map fst kvs))"
| "contains (PList xs) k = Inr (PStr k \<in> set xs)"
| "contains (PStr s) k = Inr (has_substring s k)"
| "contains v k =
     Inl (PyExn TypeError (''argument of type '' @ quoted (type_name v) @ '' is not iterable''))"

text \<open>
  \<^verbatim>\<open>for x in v\<close>: the elements of a list, the keys of a dict (each once, in the order
  of its first binding), the characters of a string.
\<close>

fun iterate :: "pyval \<Rightarrow> pyexn + pyval list" where
  "iterate (PList xs) = Inr xs"
| "iterate (PDict kvs) = Inr (map PStr (rev (remdups (rev (map fst kvs)))))"
| "iterate (PStr s) = Inr (map (\<lambda>c. PStr [c]) s)"
| "iterate v = Inl (PyExn TypeError (quoted (type_name v) @ '' object is not iterable''))"

section \<open>The enrichment queue\<close>

text \<open>
  \<^verbatim>\<open>send_to_queue\<close> hands a JSON document to the service bus, an external service. The
  model records every call (queue name and document, in order) and asks the parameter
  \<open>bus\<close> for the outcome of the call: \<open>None\<close> when the message was accepted, \<open>Some e\<close>
  when connecting, opening the sender or sending raised \<open>e\<close>. The outcome may depend on
  the calls made before.
\<close>

type_synonym queue_calls = "(string \<times> pyval) list"

type_synonym bus = "queue_calls \<Rightarrow> string \<Rightarrow> pyval \<Rightarrow> pyexn option"

definition send_to_queue :: "bus \<Rightarrow> pyval \<Rightarrow> string \<Rightarrow> queue_calls \<Rightarrow> (pyexn + unit) \<times> queue_calls" where
  "send_to_queue bus data queue_name calls =
     ((case bus calls queue_name data of Some e \<Rightarrow> Inl e | None \<Rightarrow> Inr ()),
      calls @ [(queue_name, data)])"

section \<open>The record transformer\<close>

definition failure :: "pyval \<Rightarrow> string \<Rightarrow> pyval" where
  "failure recordId message =
     PDict [(''recordId'', recordId),
            (''errors'', PList [PDict [(''message'', PStr message)]])]"

definition success :: "pyval \<Rightarrow> pyval" where
  "success recordId =
     PDict [(''recordId'', recordId),
            (''data'', PDict [(''status'', PStr ''Processing document'')])]"

definition data_required :: string where
  "data_required = quoted ''data'' @ '' field is required.''"

definition path_required :: string where
  "path_required =
     quoted ''metadata_storage_path'' @ '' field is required in '' @ quoted ''data'' @ '' object.''"

definition text_required :: string where
  "text_required = quoted ''text'' @ '' field is required in '' @ quoted ''data'' @ '' object.''"

text \<open>
  The body of the second \<^verbatim>\<open>try\<close> of \<^verbatim>\<open>transform_value\<close>: three assertions in order, each
  raising \<^verbatim>\<open>AssertionError\<close> with its message; the result is \<open>data\<close>.
\<close>

definition validate_inputs :: "pyval \<Rightarrow> pyexn + pyval" where
  "validate_inputs v =
     (case contains v ''data'' of
        Inl e \<Rightarrow> Inl e
      | Inr False \<Rightarrow> Inl (PyExn AssertionError data_required)
      | Inr True \<Rightarrow>
          (case getitem v ''data'' of
             Inl e \<Rightarrow> Inl e
           | Inr data \<Rightarrow>
               (case contains data ''metadata_storage_path'' of
                  Inl e \<Rightarrow> Inl e
                | Inr False \<Rightarrow> Inl (PyExn AssertionError path_required)
                | Inr True \<Rightarrow>
                    (case contains data ''text'' of
                       Inl e \<Rightarrow> Inl e
                     | Inr False \<Rightarrow> Inl (PyExn AssertionError text_required)
                     | Inr True \<Rightarrow> Inr data))))"

text \<open>
  The body of the third \<^verbatim>\<open>try\<close>: build the message and send it to \<^verbatim>\<open>openai_queue\<close>.
\<close>

definition enqueue :: "bus \<Rightarrow> pyval \<Rightarrow> queue_calls \<Rightarrow> (pyexn + unit) \<times> queue_calls" where
  "enqueue bus data calls =
     (case getitem data ''metadata_storage_path'' of
        Inl e \<Rightarrow> (Inl e, calls)
      | Inr path \<Rightarrow>
          (case getitem data ''text'' of
             Inl e \<Rightarrow> (Inl e, calls)
           | Inr txt \<Rightarrow>
               send_to_queue bus
                 (PDict [(''metadata_storage_path'', path), (''text'', txt)])
                 ''openai_queue'' calls))"

text \<open>
  \<^verbatim>\<open>transform_value\<close>: the result is \<open>Inr None\<close> for Python's \<^verbatim>\<open>None\<close>, \<open>Inr (Some r)\<close>
  for an output record and \<open>Inl e\<close> when \<open>e\<close> leaves the function. The first two
  handlers catch \<^verbatim>\<open>AssertionError\<close> only, the third catches \<^verbatim>\<open>Exception\<close>.
\<close>

definition transform_value :: "bus \<Rightarrow> pyval \<Rightarrow> queue_calls \<Rightarrow> (pyexn + pyval option) \<times> queue_calls" where
  "transform_value bus v calls =
     (case getitem v ''recordId'' of
        Inl error \<Rightarrow>
          (if exn_class error = AssertionError then Inr None else Inl error, calls)
      | Inr recordId \<Rightarrow>
          (case validate_inputs v of
             Inl error \<Rightarrow>
               (if exn_class error = AssertionError
                then Inr (Some (failure recordId (''Error:'' @ exn_msg error)))
                else Inl error, calls)
           | Inr data \<Rightarrow>
               (case enqueue bus data calls of
                  (Inl e, calls') \<Rightarrow>
                    (if is_Exception e
                     then Inr (Some (failure recordId
                            (''Could not complete operation for record. '' @ exn_msg e)))
                     else Inl e, calls')
                | (Inr u, calls') \<Rightarrow> (Inr (Some (success recordId)), calls'))))"

section \<open>The batch processor\<close>

text \<open>
  The loop of \<^verbatim>\<open>compose_response\<close>: each record goes through \<^verbatim>\<open>transform_value\<close>, a
  result other than \<^verbatim>\<open>None\<close> is appended, and an exception ends the loop.
\<close>

fun transform_values :: "bus \<Rightarrow> pyval list \<Rightarrow> pyval list \<Rightarrow> queue_calls \<Rightarrow> (pyexn + pyval list) \<times> queue_calls" where
  "transform_values bus [] results calls = (Inr results, calls)"
| "transform_values bus (v # vs) results calls =
     (case transform_value bus v calls of
        (Inl e, calls') \<Rightarrow> (Inl e, calls')
      | (Inr None, calls') \<Rightarrow> transform_values bus vs results calls'
      | (Inr (Some output_record), calls') \<Rightarrow>
          transform_values bus vs (results @ [output_record]) calls')"

text \<open>
  \<^verbatim>\<open>compose_response\<close> on the decoded request (\<^verbatim>\<open>json.loads\<close> and \<^verbatim>\<open>json.dumps\<close> are the
  library's): the result is the response document before it is serialised.
\<close>

definition compose_response :: "bus \<Rightarrow> pyval \<Rightarrow> queue_calls \<Rightarrow> (pyexn + pyval) \<times> queue_calls" where
  "compose_response bus json_data calls =
     (case getitem json_data ''values'' of
        Inl e \<Rightarrow> (Inl e, calls)
      | Inr vals \<Rightarrow>
          (case iterate vals of
             Inl e \<Rightarrow> (Inl e, calls)
           | Inr vs \<Rightarrow>
               (case transform_values bus vs [] calls of
                  (Inl e, calls') \<Rightarrow> (Inl e, calls')
                | (Inr results, calls') \<Rightarrow> (Inr (PDict [(''values'', PList results)]), calls'))))"

section \<open>Configuration\<close>

text \<open>
  The module-level settings, as read from the environment when the module is loaded.
  \<^verbatim>\<open>os.getenv\<close> gives \<^verbatim>\<open>None\<close> for a variable that is not set and has no default.
\<close>

record config =
  MODEL :: string
  TEMPERATURE :: real
  MAX_TOKENS :: int
  TOP_P :: real
  FREQUENCY_PENALTY :: real
  PRESENCE_PENALTY :: real
  PROMPT :: string
  MODEL_TYPE :: string
  OPENAI_PROMPT_KEYS :: string
  search_service :: "string option"
  index_name :: "string option"
  api_key :: "string option"
  api_version :: "string option"

definition default_prompt :: string where
  "default_prompt =
     ''You are a JSON formatter for extracting information out of a single chat conversation.''
     @ [CHR 0x0A, CHR 0x0A]
     @ ''Summarize the conversation, key: summary'' @ [CHR 0x0A]
     @ ''Is the customer satisfied with the agent interaction (Yes or No), key: satisfied''
     @ [CHR 0x0A, CHR 0x0A]
     @ ''Answer in JSON machine-readable format, using the keys from above.'' @ [CHR 0x0A]
     @ ''Pretty print the JSON and make sure that it is properly closed at the end and do not generate any other content.''"

text \<open>The settings of a process started with none of the variables set.\<close>

definition default_config :: config where
  "default_config =
     \<lparr> MODEL = ''gpt-4o'', TEMPERATURE = 0.7, MAX_TOKENS = 800, TOP_P = 0.95,
       FREQUENCY_PENALTY = 0.0, PRESENCE_PENALTY = 0.0, PROMPT = default_prompt,
       MODEL_TYPE = ''text'', OPENAI_PROMPT_KEYS = ''summary'',
       search_service = None, index_name = None, api_key = None, api_version = None \<rparr>"

section \<open>The completion client\<close>

text \<open>
  A call to the generation backend is the method called and its keyword arguments, in
  the order the source passes them.
\<close>

datatype api_call = Call (endpoint: string) (kwargs: "(string \<times> pyval) list")

text \<open>
  The backend is a parameter: given the calls made so far and the call at hand, it
  gives the outcome of one run of the decorated function's body, either the generated
  text read from the response or the exception raised by the call or by reading the
  response.
\<close>

type_synonym client = "api_call list \<Rightarrow> api_call \<Rightarrow> pyexn + string"

definition completion_request :: "config \<Rightarrow> string \<Rightarrow> string \<Rightarrow> api_call" where
  "completion_request cfg text prompt =
     (let prompt = (if prompt = '''' then PROMPT cfg else prompt) in
      Call ''completion.create''
        [(''engine'', PStr (MODEL cfg)),
         (''prompt'', PStr (text @ [CHR '':'', CHR 0x0A, CHR 0x0A] @ prompt)),
         (''temperature'', PFloat (TEMPERATURE cfg)),
         (''max_tokens'', PInt (MAX_TOKENS cfg)),
         (''top_p'', PFloat (TOP_P cfg)),
         (''frequency_penalty'', PFloat (FREQUENCY_PENALTY cfg)),
         (''presence_penalty'', PFloat (PRESENCE_PENALTY cfg))])"

definition chat_request :: "config \<Rightarrow> string \<Rightarrow> string \<Rightarrow> api_call" where
  "chat_request cfg text prompt =
     (let prompt = (if prompt = '''' then PROMPT cfg else prompt) in
      Call ''chat.completions.create''
        [(''model'', PStr (MODEL cfg)),
         (''messages'',
            PList [PDict [(''role'', PStr ''system''), (''content'', PStr prompt)],
                   PDict [(''role'', PStr ''user''), (''content'', PStr text)]]),
         (''temperature'', PFloat 0.7),
         (''max_tokens'', PInt 800),
         (''top_p'', PFloat 0.95),
         (''stop'', PNone)])"

text \<open>
  The decorator \<^verbatim>\<open>@retry(wait=wait_random_exponential(min=1, max=20),
  stop=stop_after_attempt(6))\<close> is the tenacity library's. Its loop (\<^verbatim>\<open>Retrying.__call__\<close>
  and \<^verbatim>\<open>iter\<close>, with the default \<^verbatim>\<open>retry_if_exception_type(Exception)\<close>): the body runs; a
  result is returned; an exception that is not an
  \<^verbatim>\<open>Exception\<close> leaves at once; otherwise, when the attempt number has reached the stop
  count, \<^verbatim>\<open>RetryError\<close> is raised around the last exception, and else the loop sleeps
  for the wait of this attempt and runs the body again.

  \<^verbatim>\<open>wait_exponential\<close> is \<^verbatim>\<open>max(max(0, min), min(multiplier * exp_base ** (n - 1), max))\<close>
  for attempt \<open>n\<close>; \<^verbatim>\<open>wait_random_exponential\<close> (tenacity 8.2.3) returns
  \<^verbatim>\<open>random.uniform(0, high)\<close> for that bound \<open>high\<close>, which is \<^verbatim>\<open>0 + (high - 0) * random()\<close>:
  \<^verbatim>\<open>min\<close> enters the bound only. The draws are the parameter \<open>jitter\<close>: the value
  \<^verbatim>\<open>random()\<close> gives after attempt \<open>n\<close>. Waits are real numbers.
\<close>

definition wait_exponential :: "real \<Rightarrow> real \<Rightarrow> real \<Rightarrow> real \<Rightarrow> nat \<Rightarrow> real" where
  "wait_exponential multiplier hi exp_base lo n =
     max (max 0 lo) (min (multiplier * exp_base ^ (n - 1)) hi)"

definition wait_random_exponential :: "real \<Rightarrow> real \<Rightarrow> real \<Rightarrow> nat \<Rightarrow> real" where
  "wait_random_exponential lo hi u n =
     (let high = wait_exponential 1 hi 2 lo n in 0 + (high - 0) * u)"

datatype 'a retry_result = Returned 'a | RetryError pyexn | Reraised pyexn

record retry_trace =
  calls_made :: "api_call list"
  waits :: "real list"

function retrying ::
  "nat \<Rightarrow> (real \<Rightarrow> nat \<Rightarrow> real) \<Rightarrow> (nat \<Rightarrow> real) \<Rightarrow> client \<Rightarrow> api_call \<Rightarrow> nat \<Rightarrow> retry_trace
     \<Rightarrow> string retry_result \<times> retry_trace" where
  "retrying stop wait jitter client req n tr =
     (let tr' = tr\<lparr>calls_made := calls_made tr @ [req]\<rparr> in
      case client (calls_made tr) req of
        Inr r \<Rightarrow> (Returned r, tr')
      | Inl e \<Rightarrow>
          if \<not> is_Exception e then (Reraised e, tr')
          else if n \<ge> stop then (RetryError e, tr')
          else retrying stop wait jitter client req (Suc n)
                 (tr'\<lparr>waits := waits tr' @ [wait (jitter n) n]\<rparr>))"
  by pat_completeness auto
termination
  by (relation "measure (\<lambda>(stop, wait, jitter, client, req, n, tr). stop - n)") auto

definition get_openai_completion ::
  "config \<Rightarrow> client \<Rightarrow> (nat \<Rightarrow> real) \<Rightarrow> api_call list \<Rightarrow> string \<Rightarrow> string
     \<Rightarrow> string retry_result \<times> retry_trace" where
  "get_openai_completion cfg client jitter history text prompt =
     retrying 6 (wait_random_exponential 1 20) jitter client
       (completion_request cfg text prompt) 1 \<lparr>calls_made = history, waits = []\<rparr>"

definition get_openai_chat_completion ::
  "config \<Rightarrow> client \<Rightarrow> (nat \<Rightarrow> real) \<Rightarrow> api_call list \<Rightarrow> string \<Rightarrow> string
     \<Rightarrow> string retry_result \<times> retry_trace" where
  "get_openai_chat_completion cfg client jitter history text prompt =
     retrying 6 (wait_random_exponential 1 20) jitter client
       (chat_request cfg text prompt) 1 \<lparr>calls_made = history, waits = []\<rparr>"

definition get_openai_response ::
  "config \<Rightarrow> client \<Rightarrow> (nat \<Rightarrow> real) \<Rightarrow> api_call list \<Rightarrow> string \<Rightarrow> string
     \<Rightarrow> string retry_result \<times> retry_trace" where
  "get_openai_response cfg client jitter history text prompt =
     (if MODEL_TYPE cfg = ''chat''
      then get_openai_chat_completion cfg client jitter history text prompt
      else get_openai_completion cfg client jitter history text prompt)"

text \<open>
  The shape of a finished run of the retry loop that started at attempt \<open>n\<close> with trace
  \<open>tr\<close> and made \<open>k\<close> attempts: the calls and waits added to the trace, the failures of
  the attempts before the last, and what the last attempt did.
\<close>

definition run_ok ::
  "nat \<Rightarrow> (real \<Rightarrow> nat \<Rightarrow> real) \<Rightarrow> (nat \<Rightarrow> real) \<Rightarrow> client \<Rightarrow> api_call \<Rightarrow> nat \<Rightarrow> retry_trace
     \<Rightarrow> string retry_result \<times> retry_trace \<Rightarrow> nat \<Rightarrow> bool" where
  "run_ok stop wait jitter client req n tr res k \<longleftrightarrow>
     1 \<le> k \<and> k \<le> stop - n + 1
     \<and> calls_made (snd res) = calls_made tr @ replicate k req
     \<and> waits (snd res) = waits tr @ map (\<lambda>i. wait (jitter i) i) [n ..< n + k - 1]
     \<and> (\<forall>i < k - 1. \<exists>e. client (calls_made tr @ replicate i req) req = Inl e \<and> is_Exception e)
     \<and> (case fst res of
          Returned s \<Rightarrow> client (calls_made tr @ replicate (k - 1) req) req = Inr s
        | Reraised e \<Rightarrow> client (calls_made tr @ replicate (k - 1) req) req = Inl e \<and> \<not> is_Exception e
        | RetryError e \<Rightarrow> client (calls_made tr @ replicate (k - 1) req) req = Inl e
              \<and> is_Exception e \<and> stop \<le> n + k - 1)"

section \<open>The index publisher\<close>

text \<open>
  The casts of \<^verbatim>\<open>push_to_ACS\<close> are Python's builtins. \<^verbatim>\<open>bool(x)\<close> is the truth value of
  \<open>x\<close>. The others are parameters: \<open>py_str\<close> is the text \<^verbatim>\<open>str(x)\<close> gives (also what an
  f-string prints for \<open>x\<close>), \<open>py_int\<close> and \<open>py_float\<close> are \<^verbatim>\<open>int(x)\<close> and \<^verbatim>\<open>float(x)\<close>,
  which raise on a value they cannot convert.
\<close>

record builtins =
  py_str :: "pyval \<Rightarrow> string"
  py_int :: "pyval \<Rightarrow> pyexn + int"
  py_float :: "pyval \<Rightarrow> pyexn + real"

fun truthy :: "pyval \<Rightarrow> bool" where
  "truthy PNone = False"
| "truthy (PBool b) = b"
| "truthy (PInt n) = (n \<noteq> 0)"
| "truthy (PFloat r) = (r \<noteq> 0)"
| "truthy (PStr s) = (s \<noteq> [])"
| "truthy (PList xs) = (xs \<noteq> [])"
| "truthy (PDict kvs) = (kvs \<noteq> [])"

text \<open>\<^verbatim>\<open>s.split(sep)\<close> for a separator of one character.\<close>

fun split_on :: "char \<Rightarrow> string \<Rightarrow> string list" where
  "split_on sep [] = [[]]"
| "split_on sep (c # cs) =
     (if c = sep then [] # split_on sep cs
      else (case split_on sep cs of
              [] \<Rightarrow> [[c]]
            | w # ws \<Rightarrow> (c # w) # ws))"

text \<open>\<^verbatim>\<open>a, b, c = xs\<close>: exactly three values, or a \<^verbatim>\<open>ValueError\<close>.\<close>

fun unpack3 :: "string list \<Rightarrow> pyexn + (string \<times> string \<times> string)" where
  "unpack3 [a, b, c] = Inr (a, b, c)"
| "unpack3 [] = Inl (PyExn ValueError ''not enough values to unpack (expected 3, got 0)'')"
| "unpack3 [a] = Inl (PyExn ValueError ''not enough values to unpack (expected 3, got 1)'')"
| "unpack3 [a, b] = Inl (PyExn ValueError ''not enough values to unpack (expected 3, got 2)'')"
| "unpack3 xs = Inl (PyExn ValueError ''too many values to unpack (expected 3)'')"

text \<open>\<^verbatim>\<open>d[k] = x\<close> on a dict: the binding of \<open>k\<close> is replaced, or a new one is added last.\<close>

fun dict_set :: "(string \<times> pyval) list \<Rightarrow> string \<Rightarrow> pyval \<Rightarrow> (string \<times> pyval) list" where
  "dict_set [] k x = [(k, x)]"
| "dict_set ((k', y) # kvs) k x =
     (if k' = k then (k, x) # kvs else (k', y) # dict_set kvs k x)"

text \<open>
  What the process does besides returning: lines written to the log, and requests
  posted to the index.
\<close>

record http_request =
  url :: string
  headers :: "(string \<times> string option) list"
  json :: pyval

datatype effect = LogInfo string | LogError string | Post http_request

text \<open>
  \<^verbatim>\<open>body_value[key] = cast(data['output'][key])\<close>: the lookup, then the cast, then the
  assignment.
\<close>

definition set_field ::
  "(pyval \<Rightarrow> pyexn + pyval) \<Rightarrow> pyval \<Rightarrow> string \<Rightarrow> (string \<times> pyval) list
     \<Rightarrow> pyexn + (string \<times> pyval) list" where
  "set_field cast output key body_value =
     (case getitem output key of
        Inl e \<Rightarrow> Inl e
      | Inr x \<Rightarrow>
          (case cast x of
             Inl e \<Rightarrow> Inl e
           | Inr y \<Rightarrow> Inr (dict_set body_value key y)))"

text \<open>
  One round of the loop over the entries of \<^verbatim>\<open>OPENAI_PROMPT_KEYS\<close>, after the entry
  is unpacked: the \<^verbatim>\<open>if\<close>/\<^verbatim>\<open>elif\<close> chain on the type tag. A round ends by an exception,
  by \<^verbatim>\<open>return 500\<close> after an error line in the log, or with the updated \<^verbatim>\<open>body_value\<close>.
\<close>

datatype fields_result =
    Raises pyexn
  | Returns int "effect list"
  | Built "(string \<times> pyval) list"

fun built :: "pyexn + (string \<times> pyval) list \<Rightarrow> fields_result" where
  "built (Inl e) = Raises e"
| "built (Inr body_value) = Built body_value"

definition typed_field ::
  "builtins \<Rightarrow> pyval \<Rightarrow> string \<Rightarrow> string \<Rightarrow> (string \<times> pyval) list \<Rightarrow> fields_result" where
  "typed_field py output key search_type body_value =
     (if search_type = ''Edm.String''
      then built (set_field (\<lambda>x. Inr (PStr (py_str py x))) output key body_value)
      else if search_type = ''Edm.Int32''
      then built (set_field (\<lambda>x. map_sum id PInt (py_int py x)) output key body_value)
      else if search_type = ''Edm.Int64''
      then built (set_field (\<lambda>x. map_sum id PInt (py_int py x)) output key body_value)
      else if search_type = ''Edm.Double''
      then built (set_field (\<lambda>x. map_sum id PFloat (py_float py x)) output key body_value)
      else if search_type = ''Edm.Boolean''
      then built (set_field (\<lambda>x. Inr (PBool (truthy x))) output key body_value)
      else Returns 500
             [LogError (''Invalid search type '' @ search_type @ '' for key '' @ key @ ''.'')])"

text \<open>The loop: each entry is split at the colons into key, type tag and a third part.\<close>

fun map_fields :: "builtins \<Rightarrow> pyval \<Rightarrow> string list \<Rightarrow> (string \<times> pyval) list \<Rightarrow> fields_result" where
  "map_fields py output [] body_value = Built body_value"
| "map_fields py output (entry # entries) body_value =
     (case unpack3 (split_on CHR '':'' entry) of
        Inl e \<Rightarrow> Raises e
      | Inr (key, search_type, extra) \<Rightarrow>
          (case typed_field py output key search_type body_value of
             Built body_value' \<Rightarrow> map_fields py output entries body_value'
           | Raises e \<Rightarrow> Raises e
           | Returns status effects \<Rightarrow> Returns status effects))"

text \<open>An f-string prints \<^verbatim>\<open>None\<close> for a setting that is not set.\<close>

fun fmt :: "string option \<Rightarrow> string" where
  "fmt None = ''None''"
| "fmt (Some s) = s"

definition index_url :: "config \<Rightarrow> string" where
  "index_url cfg =
     ''https://'' @ fmt (search_service cfg) @ ''.search.windows.net/indexes/''
     @ fmt (index_name cfg) @ ''/docs/index?api-version='' @ fmt (api_version cfg)"

definition index_request :: "config \<Rightarrow> (string \<times> pyval) list \<Rightarrow> http_request" where
  "index_request cfg body_value =
     \<lparr> url = index_url cfg,
       headers = [(''Content-Type'', Some ''application/json''), (''api-key'', api_key cfg)],
       json = PDict [(''value'', PList [PDict body_value])] \<rparr>"

text \<open>
  \<^verbatim>\<open>push_to_ACS\<close>: the result is the status returned or the exception that leaves the
  function, with the effects in order. \<open>post\<close> is \<^verbatim>\<open>requests.post\<close> and the index behind
  it: the status code and text of the response, or the exception raised.
\<close>

definition push_to_ACS ::
  "builtins \<Rightarrow> config \<Rightarrow> (http_request \<Rightarrow> pyexn + int \<times> string) \<Rightarrow> pyval
     \<Rightarrow> (pyexn + int) \<times> effect list" where
  "push_to_ACS py cfg post data =
     (case getitem data ''metadata_storage_path'' of
        Inl e \<Rightarrow> (Inl e, [])
      | Inr path \<Rightarrow>
          (case getitem data ''output'' of
             Inl e \<Rightarrow> (Inl e, [])
           | Inr output \<Rightarrow>
               if output = PList []
               then (Inr 200,
                     [LogInfo (''No output from OpenAI. Skipping this document ''
                               @ py_str py path @ ''.'')])
               else
                 (case map_fields py output
                         (split_on CHR '','' (filter (\<lambda>c. c \<noteq> CHR '' '') (OPENAI_PROMPT_KEYS cfg)))
                         [(''@search.action'', PStr ''merge''), (''metadata_storage_path'', path)] of
                    Raises e \<Rightarrow> (Inl e, [])
                  | Returns status effects \<Rightarrow> (Inr status, effects)
                  | Built body_value \<Rightarrow>
                      (case post (index_request cfg body_value) of
                         Inl e \<Rightarrow> (Inl e, [Post (index_request cfg body_value)])
                       | Inr (status_code, response_text) \<Rightarrow>
                           (Inr status_code,
                            [Post (index_request cfg body_value), LogInfo response_text])))))"

text \<open>The requests among the effects.\<close>

fun posts :: "effect list \<Rightarrow> http_request list" where
  "posts [] = []"
| "posts (Post r # es) = r # posts es"
| "posts (e # es) = posts es"

section \<open>Environments for the examples\<close>

text \<open>A queue that accepts every message, and one that refuses every message with \<open>e\<close>.\<close>

definition accepting_bus :: bus where
  "accepting_bus calls queue_name data = None"

definition refusing_bus :: "pyexn \<Rightarrow> bus" where
  "refusing_bus e calls queue_name data = Some e"

text \<open>An index that answers every request with status 200.\<close>

definition index_ok :: "http_request \<Rightarrow> pyexn + int \<times> string" where
  "index_ok r = Inr (200, ''ok'')"


section \<open>Properties of the record transformer\<close>

lemma in_keys: "map_of kvs k = Some x \<Longrightarrow> k \<in> fst ` set kvs"
  by (force dest: map_of_SomeD)

lemma not_in_keys: "map_of kvs k = None \<Longrightarrow> k \<notin> fst ` set kvs"
  by (simp add: map_of_eq_None_iff)

lemma transform_value_never_None: "fst (transform_value bus v calls) \<noteq> Inr None"
  by (cases v)
     (auto simp: transform_value_def split: sum.splits option.splits prod.splits bool.splits)

lemma transform_value_no_recordId:
  "transform_value bus (PDict [(''data'', d)]) calls =
     (Inl (PyExn KeyError (quoted ''recordId'')), calls)"
  by (simp add: transform_value_def)

text \<open>
  C1 (the code departs from the claim). A work item without \<^verbatim>\<open>recordId\<close> is not dropped:
  \<^verbatim>\<open>value['recordId']\<close> raises \<^verbatim>\<open>KeyError\<close>, the handler catches \<^verbatim>\<open>AssertionError\<close> only, and
  the \<^verbatim>\<open>KeyError\<close> leaves \<^verbatim>\<open>transform_value\<close> with nothing sent to the queue. On no input
  at all does \<^verbatim>\<open>transform_value\<close> return \<^verbatim>\<open>None\<close>.
\<close>

theorem transform_value_missing_recordId_raises:
  "transform_value bus (PDict [(''data'', d)]) calls =
     (Inl (PyExn KeyError (quoted ''recordId'')), calls)
   \<and> fst (transform_value bus v calls') \<noteq> Inr None"
  using transform_value_no_recordId transform_value_never_None by simp

text \<open>
  C5. For a work item with \<^verbatim>\<open>recordId\<close>, \<^verbatim>\<open>data.metadata_storage_path\<close> and \<^verbatim>\<open>data.text\<close>, when
  the queue submission raises an exception \<open>e\<close> derived from \<^verbatim>\<open>Exception\<close>, the result of
  \<^verbatim>\<open>transform_value\<close> is the failure record of that \<^verbatim>\<open>recordId\<close> with the single message
  \<^verbatim>\<open>Could not complete operation for record. \<close> followed by the text of \<open>e\<close>; nothing is
  raised.
\<close>

theorem transform_value_enqueue_failure:
  assumes "map_of kvs ''recordId'' = Some rid"
    and "map_of kvs ''data'' = Some (PDict dkvs)"
    and "map_of dkvs ''metadata_storage_path'' = Some p"
    and "map_of dkvs ''text'' = Some t"
    and "bus calls ''openai_queue'' (PDict [(''metadata_storage_path'', p), (''text'', t)]) = Some e"
    and "is_Exception e"
  shows "transform_value bus (PDict kvs) calls =
    (Inr (Some (PDict [(''recordId'', rid),
       (''errors'', PList [PDict [(''message'',
           PStr (''Could not complete operation for record. '' @ exn_msg e))]])])),
     calls @ [(''openai_queue'', PDict [(''metadata_storage_path'', p), (''text'', t)])])"
  using assms in_keys[OF assms(2)] in_keys[OF assms(3)] in_keys[OF assms(4)]
  by (simp add: transform_value_def validate_inputs_def enqueue_def send_to_queue_def failure_def)

theorem transform_value_enqueue_failure_witness:
  "is_Exception (PyExn (OtherException ''ServiceBusError'') ''connection refused'') \<and>
   transform_value (refusing_bus (PyExn (OtherException ''ServiceBusError'') ''connection refused''))
     (PDict [(''recordId'', PStr ''1''),
             (''data'', PDict [(''metadata_storage_path'', PStr ''/a''), (''text'', PStr ''hello'')])]) []
   = (Inr (Some (PDict [(''recordId'', PStr ''1''),
        (''errors'', PList [PDict [(''message'',
            PStr ''Could not complete operation for record. connection refused'')]])])),
      [(''openai_queue'', PDict [(''metadata_storage_path'', PStr ''/a''), (''text'', PStr ''hello'')])])"
  using transform_value_enqueue_failure
          [of "[(''recordId'', PStr ''1''),
                (''data'', PDict [(''metadata_storage_path'', PStr ''/a''), (''text'', PStr ''hello'')])]"
              "PStr ''1''" "[(''metadata_storage_path'', PStr ''/a''), (''text'', PStr ''hello'')]"
              "PStr ''/a''" "PStr ''hello''"
              "refusing_bus (PyExn (OtherException ''ServiceBusError'') ''connection refused'')" "[]"
              "PyExn (OtherException ''ServiceBusError'') ''connection refused''"]
  by (simp add: refusing_bus_def)

lemma validate_no_data:
  "map_of kvs ''data'' = None \<Longrightarrow>
   validate_inputs (PDict kvs) = Inl (PyExn AssertionError data_required)"
  by (simp add: validate_inputs_def not_in_keys)

lemma validate_no_path:
  "map_of kvs ''data'' = Some (PDict dkvs) \<Longrightarrow> map_of dkvs ''metadata_storage_path'' = None \<Longrightarrow>
   validate_inputs (PDict kvs) = Inl (PyExn AssertionError path_required)"
  by (simp add: validate_inputs_def not_in_keys in_keys)

lemma validate_no_text:
  "map_of kvs ''data'' = Some (PDict dkvs) \<Longrightarrow> map_of dkvs ''metadata_storage_path'' = Some p \<Longrightarrow>
   map_of dkvs ''text'' = None \<Longrightarrow>
   validate_inputs (PDict kvs) = Inl (PyExn AssertionError text_required)"
  by (simp add: validate_inputs_def not_in_keys in_keys)

lemma transform_value_invalid:
  "map_of kvs ''recordId'' = Some rid \<Longrightarrow>
   validate_inputs (PDict kvs) = Inl (PyExn AssertionError m) \<Longrightarrow>
   transform_value bus (PDict kvs) calls =
     (Inr (Some (PDict [(''recordId'', rid),
                (''errors'', PList [PDict [(''message'', PStr (''Error:'' @ m))]])])), calls)"
  by (simp add: transform_value_def failure_def)

text \<open>
  C6 (the code departs from the claim). A work item with \<^verbatim>\<open>recordId\<close> whose \<^verbatim>\<open>data\<close> is
  \<^verbatim>\<open>null\<close>, a number or a boolean has no \<^verbatim>\<open>metadata_storage_path\<close>, yet no failure record is
  returned: the test \<^verbatim>\<open>'metadata_storage_path' in data\<close> raises \<^verbatim>\<open>TypeError\<close>, the handler
  catches \<^verbatim>\<open>AssertionError\<close> only, and the \<^verbatim>\<open>TypeError\<close> leaves \<^verbatim>\<open>transform_value\<close>.
\<close>

theorem transform_value_data_not_object_raises:
  "transform_value bus (PDict [(''recordId'', rid), (''data'', PNone)]) calls =
     (Inl (PyExn TypeError
            (''argument of type '' @ [CHR 0x27] @ ''NoneType'' @ [CHR 0x27] @ '' is not iterable'')),
      calls)
   \<and> transform_value bus (PDict [(''recordId'', rid), (''data'', PInt n)]) calls =
     (Inl (PyExn TypeError
            (''argument of type '' @ [CHR 0x27] @ ''int'' @ [CHR 0x27] @ '' is not iterable'')),
      calls)
   \<and> transform_value bus (PDict [(''recordId'', rid), (''data'', PFloat r)]) calls =
     (Inl (PyExn TypeError
            (''argument of type '' @ [CHR 0x27] @ ''float'' @ [CHR 0x27] @ '' is not iterable'')),
      calls)
   \<and> transform_value bus (PDict [(''recordId'', rid), (''data'', PBool b)]) calls =
     (Inl (PyExn TypeError
            (''argument of type '' @ [CHR 0x27] @ ''bool'' @ [CHR 0x27] @ '' is not iterable'')),
      calls)"
  by (simp add: transform_value_def validate_inputs_def quoted_def)

text \<open>
  X2. For a work item with \<^verbatim>\<open>recordId\<close> whose \<^verbatim>\<open>data\<close> is absent or is an object, the checks
  run in the order \<^verbatim>\<open>data\<close>, \<^verbatim>\<open>data.metadata_storage_path\<close>, \<^verbatim>\<open>data.text\<close>, and the result is
  the failure record with exactly one error entry, \<^verbatim>\<open>Error:\<close> followed by the message of
  the first check that fails, whatever else is missing; nothing is sent to the queue.
\<close>

theorem transform_value_first_missing_field:
  assumes "map_of kvs ''recordId'' = Some rid"
  shows "(map_of kvs ''data'' = None \<longrightarrow>
           transform_value bus (PDict kvs) calls =
             (Inr (Some (PDict [(''recordId'', rid),
                (''errors'', PList [PDict [(''message'', PStr (''Error:'' @ data_required))]])])),
              calls))
       \<and> (\<forall>dkvs. map_of kvs ''data'' = Some (PDict dkvs)
              \<and> map_of dkvs ''metadata_storage_path'' = None \<longrightarrow>
           transform_value bus (PDict kvs) calls =
             (Inr (Some (PDict [(''recordId'', rid),
                (''errors'', PList [PDict [(''message'', PStr (''Error:'' @ path_required))]])])),
              calls))
       \<and> (\<forall>dkvs p. map_of kvs ''data'' = Some (PDict dkvs)
              \<and> map_of dkvs ''metadata_storage_path'' = Some p
              \<and> map_of dkvs ''text'' = None \<longrightarrow>
           transform_value bus (PDict kvs) calls =
             (Inr (Some (PDict [(''recordId'', rid),
                (''errors'', PList [PDict [(''message'', PStr (''Error:'' @ text_required))]])])),
              calls))"
proof (intro conjI allI impI)
  assume "map_of kvs ''data'' = None"
  then show "transform_value bus (PDict kvs) calls =
             (Inr (Some (PDict [(''recordId'', rid),
                (''errors'', PList [PDict [(''message'', PStr (''Error:'' @ data_required))]])])),
              calls)"
    using assms by (simp add: transform_value_invalid validate_no_data)
next
  fix dkvs
  assume "map_of kvs ''data'' = Some (PDict dkvs) \<and> map_of dkvs ''metadata_storage_path'' = None"
  then show "transform_value bus (PDict kvs) calls =
             (Inr (Some (PDict [(''recordId'', rid),
                (''errors'', PList [PDict [(''message'', PStr (''Error:'' @ path_required))]])])),
              calls)"
    using assms by (simp add: transform_value_invalid validate_no_path)
next
  fix dkvs p
  assume "map_of kvs ''data'' = Some (PDict dkvs)
              \<and> map_of dkvs ''metadata_storage_path'' = Some p
              \<and> map_of dkvs ''text'' = None"
  then show "transform_value bus (PDict kvs) calls =
             (Inr (Some (PDict [(''recordId'', rid),
                (''errors'', PList [PDict [(''message'', PStr (''Error:'' @ text_required))]])])),
              calls)"
    using assms by (simp add: transform_value_invalid validate_no_text)
qed

theorem transform_value_first_missing_field_witness:
  "transform_value accepting_bus (PDict [(''recordId'', PStr ''1'')]) [] =
     (Inr (Some (PDict [(''recordId'', PStr ''1''),
        (''errors'', PList [PDict [(''message'',
            PStr (''Error:'' @ [CHR 0x27] @ ''data'' @ [CHR 0x27] @ '' field is required.''))]])])), [])
   \<and> transform_value accepting_bus (PDict [(''recordId'', PStr ''1''), (''data'', PDict [])]) [] =
     (Inr (Some (PDict [(''recordId'', PStr ''1''),
        (''errors'', PList [PDict [(''message'',
            PStr (''Error:'' @ [CHR 0x27] @ ''metadata_storage_path'' @ [CHR 0x27]
                  @ '' field is required in '' @ [CHR 0x27] @ ''data'' @ [CHR 0x27]
                  @ '' object.''))]])])), [])
   \<and> transform_value accepting_bus
        (PDict [(''recordId'', PStr ''1''),
                (''data'', PDict [(''metadata_storage_path'', PStr ''/a'')])]) [] =
     (Inr (Some (PDict [(''recordId'', PStr ''1''),
        (''errors'', PList [PDict [(''message'',
            PStr (''Error:'' @ [CHR 0x27] @ ''text'' @ [CHR 0x27]
                  @ '' field is required in '' @ [CHR 0x27] @ ''data'' @ [CHR 0x27]
                  @ '' object.''))]])])), [])"
  using transform_value_first_missing_field
          [of "[(''recordId'', PStr ''1'')]" "PStr ''1''" accepting_bus "[]", THEN conjunct1]
        transform_value_first_missing_field
          [of "[(''recordId'', PStr ''1''), (''data'', PDict [])]" "PStr ''1''" accepting_bus "[]",
           THEN conjunct2, THEN conjunct1, THEN spec, of "[]"]
        transform_value_first_missing_field
          [of "[(''recordId'', PStr ''1''),
                (''data'', PDict [(''metadata_storage_path'', PStr ''/a'')])]"
              "PStr ''1''" accepting_bus "[]",
           THEN conjunct2, THEN conjunct2, THEN spec, THEN spec,
           of "[(''metadata_storage_path'', PStr ''/a'')]" "PStr ''/a''"]
  by (simp add: data_required_def path_required_def text_required_def quoted_def)

text \<open>
  C7. For a work item with \<^verbatim>\<open>recordId\<close>, \<^verbatim>\<open>data.metadata_storage_path\<close> and \<^verbatim>\<open>data.text\<close>, when
  the queue accepts the message, \<^verbatim>\<open>transform_value\<close> returns the record of that
  \<^verbatim>\<open>recordId\<close> with \<^verbatim>\<open>data\<close> holding the status \<^verbatim>\<open>Processing document\<close>, after one call to
  \<^verbatim>\<open>openai_queue\<close> with the path and the text.
\<close>

theorem transform_value_success:
  assumes "map_of kvs ''recordId'' = Some rid"
    and "map_of kvs ''data'' = Some (PDict dkvs)"
    and "map_of dkvs ''metadata_storage_path'' = Some p"
    and "map_of dkvs ''text'' = Some t"
    and "bus calls ''openai_queue'' (PDict [(''metadata_storage_path'', p), (''text'', t)]) = None"
  shows "transform_value bus (PDict kvs) calls =
    (Inr (Some (PDict [(''recordId'', rid),
                       (''data'', PDict [(''status'', PStr ''Processing document'')])])),
     calls @ [(''openai_queue'', PDict [(''metadata_storage_path'', p), (''text'', t)])])"
  using assms in_keys[OF assms(2)] in_keys[OF assms(3)] in_keys[OF assms(4)]
  by (simp add: transform_value_def validate_inputs_def enqueue_def send_to_queue_def success_def)

theorem transform_value_success_witness:
  "transform_value accepting_bus
     (PDict [(''recordId'', PStr ''1''),
             (''data'', PDict [(''metadata_storage_path'', PStr ''/a''), (''text'', PStr ''hello'')])]) []
   = (Inr (Some (PDict [(''recordId'', PStr ''1''),
                        (''data'', PDict [(''status'', PStr ''Processing document'')])])),
      [(''openai_queue'', PDict [(''metadata_storage_path'', PStr ''/a''), (''text'', PStr ''hello'')])])"
  using transform_value_success
          [of "[(''recordId'', PStr ''1''),
                (''data'', PDict [(''metadata_storage_path'', PStr ''/a''), (''text'', PStr ''hello'')])]"
              "PStr ''1''" "[(''metadata_storage_path'', PStr ''/a''), (''text'', PStr ''hello'')]"
              "PStr ''/a''" "PStr ''hello''" accepting_bus "[]"]
  by (simp add: accepting_bus_def)

section \<open>Properties of the batch processor\<close>

text \<open>
  C8 (the code departs from the claim). A batch holding a work item without \<^verbatim>\<open>recordId\<close>
  has no output: the \<^verbatim>\<open>KeyError\<close> of \<^verbatim>\<open>transform_value\<close> leaves \<^verbatim>\<open>compose_response\<close>, where
  the claim has the item omitted from the output list.
\<close>

theorem compose_response_missing_recordId_raises:
  "compose_response bus (PDict [(''values'', PList [PDict [(''data'', d)]])]) calls =
     (Inl (PyExn KeyError (quoted ''recordId'')), calls)"
  by (simp add: compose_response_def transform_value_no_recordId)

lemma transform_values_results:
  "transform_values bus vs acc calls = (Inr out, calls') \<Longrightarrow>
   \<exists>rs. out = acc @ rs
      \<and> list_all2 (\<lambda>v r. \<exists>c. fst (transform_value bus v c) = Inr (Some r)) vs rs"
proof (induction vs arbitrary: acc calls)
  case Nil
  then show ?case by simp
next
  case (Cons v vs)
  obtain x c1 where tv: "transform_value bus v calls = (x, c1)" by (cases "transform_value bus v calls")
  show ?case
  proof (cases x)
    case (Inl e)
    then show ?thesis using Cons.prems tv by simp
  next
    case (Inr ro)
    show ?thesis
    proof (cases ro)
      case None
      then have "fst (transform_value bus v calls) = Inr None" using tv Inr by simp
      then show ?thesis using transform_value_never_None by blast
    next
      case (Some r)
      then have "transform_values bus vs (acc @ [r]) c1 = (Inr out, calls')"
        using Cons.prems tv Inr by simp
      from Cons.IH[OF this] obtain rs where rs: "out = (acc @ [r]) @ rs"
        "list_all2 (\<lambda>v r. \<exists>c. fst (transform_value bus v c) = Inr (Some r)) vs rs" by blast
      have "fst (transform_value bus v calls) = Inr (Some r)" using tv Inr Some by simp
      then have "list_all2 (\<lambda>v r. \<exists>c. fst (transform_value bus v c) = Inr (Some r)) (v # vs) (r # rs)"
        using rs(2) by auto
      then show ?thesis using rs(1) by (intro exI[of _ "r # rs"]) simp
    qed
  qed
qed

text \<open>
  X1. Whenever \<^verbatim>\<open>compose_response\<close> returns on a batch whose \<^verbatim>\<open>values\<close> is a list, the output
  holds exactly one result per work item, in the order of the input, each the record
  \<^verbatim>\<open>transform_value\<close> returned for that item: no item is ever left out.
\<close>

theorem compose_response_one_result_per_item:
  assumes "compose_response bus (PDict [(''values'', PList vs)]) calls = (Inr out, calls')"
  shows "\<exists>rs. out = PDict [(''values'', PList rs)]
            \<and> length rs = length vs
            \<and> list_all2 (\<lambda>v r. \<exists>c. fst (transform_value bus v c) = Inr (Some r)) vs rs"
proof -
  obtain x c1 where t: "transform_values bus vs [] calls = (x, c1)"
    by (cases "transform_values bus vs [] calls")
  with assms obtain results where r: "x = Inr results" "out = PDict [(''values'', PList results)]"
    by (cases x) (auto simp: compose_response_def)
  from transform_values_results[of bus vs "[]" calls results c1] t r(1)
  obtain rs where "results = rs"
    "list_all2 (\<lambda>v r. \<exists>c. fst (transform_value bus v c) = Inr (Some r)) vs rs" by auto
  then show ?thesis using r(2) by (auto dest: list_all2_lengthD)
qed

theorem compose_response_one_result_per_item_witness:
  "compose_response accepting_bus
     (PDict [(''values'', PList [PDict [(''recordId'', PStr ''1''),
        (''data'', PDict [(''metadata_storage_path'', PStr ''/a''), (''text'', PStr ''hello'')])]])]) []
   = (Inr (PDict [(''values'', PList [PDict [(''recordId'', PStr ''1''),
                     (''data'', PDict [(''status'', PStr ''Processing document'')])]])]),
      [(''openai_queue'', PDict [(''metadata_storage_path'', PStr ''/a''), (''text'', PStr ''hello'')])])
   \<and> (\<exists>rs. PDict [(''values'', PList [PDict [(''recordId'', PStr ''1''),
                     (''data'', PDict [(''status'', PStr ''Processing document'')])]])]
            = PDict [(''values'', PList rs)] \<and> length rs = 1)"
proof -
  have e: "compose_response accepting_bus
     (PDict [(''values'', PList [PDict [(''recordId'', PStr ''1''),
        (''data'', PDict [(''metadata_storage_path'', PStr ''/a''), (''text'', PStr ''hello'')])]])]) []
   = (Inr (PDict [(''values'', PList [PDict [(''recordId'', PStr ''1''),
                     (''data'', PDict [(''status'', PStr ''Processing document'')])]])]),
      [(''openai_queue'', PDict [(''metadata_storage_path'', PStr ''/a''), (''text'', PStr ''hello'')])])"
    by (simp add: compose_response_def transform_value_def validate_inputs_def enqueue_def
          send_to_queue_def success_def accepting_bus_def)
  from compose_response_one_result_per_item[OF e] show ?thesis using e by auto
qed

section \<open>Properties of the index publisher\<close>

lemma map_fields_append:
  "map_fields py out done bv0 = Built bv \<Longrightarrow>
   map_fields py out (done @ rest) bv0 = map_fields py out rest bv"
proof (induction "done" arbitrary: bv0)
  case Nil
  then show ?case by simp
next
  case (Cons entry "done")
  then show ?case
    by (auto split: sum.splits prod.splits fields_result.splits)
qed

lemma typed_field_unknown:
  "ty \<notin> {''Edm.String'', ''Edm.Int32'', ''Edm.Int64'', ''Edm.Double'', ''Edm.Boolean''} \<Longrightarrow>
   typed_field py out key ty bv =
     Returns 500 [LogError (''Invalid search type '' @ ty @ '' for key '' @ key @ ''.'')]"
  by (simp add: typed_field_def)

lemma typed_field_lookup_fails:
  "ty \<in> {''Edm.String'', ''Edm.Int32'', ''Edm.Int64'', ''Edm.Double'', ''Edm.Boolean''} \<Longrightarrow>
   getitem out key = Inl e \<Longrightarrow> typed_field py out key ty bv = Raises e"
  by (auto simp: typed_field_def set_field_def)

lemma typed_field_int_fails:
  "ty \<in> {''Edm.Int32'', ''Edm.Int64''} \<Longrightarrow> getitem out key = Inr x \<Longrightarrow>
   py_int py x = Inl e \<Longrightarrow> typed_field py out key ty bv = Raises e"
  by (auto simp: typed_field_def set_field_def)

lemma typed_field_float_fails:
  "getitem out key = Inr x \<Longrightarrow> py_float py x = Inl e \<Longrightarrow>
   typed_field py out key ''Edm.Double'' bv = Raises e"
  by (auto simp: typed_field_def set_field_def)

lemma dict_set_keys: "fst ` set (dict_set bv k x) = insert k (fst ` set bv)"
  by (induction bv k x rule: dict_set.induct) auto

lemma set_field_built:
  "built (set_field cast out key bv) = Built bv' \<Longrightarrow> \<exists>x. bv' = dict_set bv key x"
  by (auto simp: set_field_def split: sum.splits)

lemma typed_field_dict_set:
  "typed_field py out key ty bv = Built bv' \<Longrightarrow> \<exists>x. bv' = dict_set bv key x"
  by (auto simp: typed_field_def split: if_splits dest: set_field_built)

lemma typed_field_built:
  assumes "typed_field py out key ty bv = Built bv'"
  shows "fst ` set bv' = insert key (fst ` set bv)"
proof -
  from typed_field_dict_set[OF assms] obtain x where "bv' = dict_set bv key x" ..
  then show ?thesis by (simp only: dict_set_keys)
qed

lemma map_fields_keys:
  "map_fields py out entries bv0 = Built bv \<Longrightarrow>
   fst ` set bv0 \<subseteq> fst ` set bv \<and>
   (\<forall>entry \<in> set entries. \<exists>key ty extra.
       split_on CHR '':'' entry = [key, ty, extra] \<and> key \<in> fst ` set bv)"
proof (induction entries arbitrary: bv0)
  case Nil
  then show ?case by simp
next
  case (Cons entry entries)
  from Cons.prems obtain key ty extra bv1 where
    u: "unpack3 (split_on CHR '':'' entry) = Inr (key, ty, extra)"
    and t: "typed_field py out key ty bv0 = Built bv1"
    and m: "map_fields py out entries bv1 = Built bv"
    by (auto split: sum.splits prod.splits fields_result.splits)
  from u have s: "split_on CHR '':'' entry = [key, ty, extra]"
    by (cases "split_on CHR '':'' entry" rule: unpack3.cases) auto
  from typed_field_built[OF t] have k1: "fst ` set bv1 = insert key (fst ` set bv0)" .
  from Cons.IH[OF m] have ih: "fst ` set bv1 \<subseteq> fst ` set bv"
    and ih2: "\<forall>entry \<in> set entries. \<exists>key ty extra.
       split_on CHR '':'' entry = [key, ty, extra] \<and> key \<in> fst ` set bv" by auto
  show ?case using s k1 ih ih2 by auto
qed


lemma push_to_ACS_fields:
  assumes "map_of kvs ''metadata_storage_path'' = Some path"
    and "map_of kvs ''output'' = Some out"
    and "out \<noteq> PList []"
  shows "push_to_ACS py cfg post (PDict kvs) =
     (case map_fields py out
             (split_on CHR '','' (filter (\<lambda>c. c \<noteq> CHR '' '') (OPENAI_PROMPT_KEYS cfg)))
             [(''@search.action'', PStr ''merge''), (''metadata_storage_path'', path)] of
        Raises e \<Rightarrow> (Inl e, [])
      | Returns status effects \<Rightarrow> (Inr status, effects)
      | Built body_value \<Rightarrow>
          (case post (index_request cfg body_value) of
             Inl e \<Rightarrow> (Inl e, [Post (index_request cfg body_value)])
           | Inr (status_code, response_text) \<Rightarrow>
               (Inr status_code,
                [Post (index_request cfg body_value), LogInfo response_text])))"
  using assms by (simp add: push_to_ACS_def)

text \<open>
  C9 (corrected). For a publish input holding \<^verbatim>\<open>metadata_storage_path\<close> and an \<^verbatim>\<open>output\<close> that is the empty
  list, \<^verbatim>\<open>push_to_ACS\<close> writes one line to the log and returns 200; nothing is posted to the
  index.
\<close>

theorem push_to_ACS_empty_output:
  assumes "map_of kvs ''metadata_storage_path'' = Some path"
    and "map_of kvs ''output'' = Some (PList [])"
  shows "push_to_ACS py cfg post (PDict kvs) =
           (Inr 200,
            [LogInfo (''No output from OpenAI. Skipping this document '' @ py_str py path @ ''.'')])
         \<and> posts (snd (push_to_ACS py cfg post (PDict kvs))) = []"
  using assms by (simp add: push_to_ACS_def)

theorem push_to_ACS_empty_output_witness:
  "\<forall>py post.
     push_to_ACS py default_config post
       (PDict [(''metadata_storage_path'', PStr ''/a''), (''output'', PList [])]) =
       (Inr 200,
        [LogInfo (''No output from OpenAI. Skipping this document '' @ py_str py (PStr ''/a'') @ ''.'')])
     \<and> posts (snd (push_to_ACS py default_config post
          (PDict [(''metadata_storage_path'', PStr ''/a''), (''output'', PList [])]))) = []"
  using push_to_ACS_empty_output
          [of "[(''metadata_storage_path'', PStr ''/a''), (''output'', PList [])]" "PStr ''/a''"]
  by simp

text \<open>
  The claim C9 as stated fails for an output that is empty but not the empty list: with
  the specification \<^verbatim>\<open>summary:Edm.String:x\<close>, the empty object, the empty string and
  \<^verbatim>\<open>null\<close> are not skipped; the loop runs and the lookup of \<^verbatim>\<open>summary\<close> raises, so no
  status 200 is returned, whatever the builtins and the index do.
\<close>

theorem push_to_ACS_empty_object_counterexample:
  "\<forall>py post.
     push_to_ACS py (default_config\<lparr>OPENAI_PROMPT_KEYS := ''summary:Edm.String:x''\<rparr>) post
       (PDict [(''metadata_storage_path'', PStr ''/a''), (''output'', PDict [])])
       = (Inl (PyExn KeyError ([CHR 0x27] @ ''summary'' @ [CHR 0x27])), [])
   \<and> push_to_ACS py (default_config\<lparr>OPENAI_PROMPT_KEYS := ''summary:Edm.String:x''\<rparr>) post
       (PDict [(''metadata_storage_path'', PStr ''/a''), (''output'', PStr '''')])
       = (Inl (PyExn TypeError
                (''string indices must be integers, not '' @ [CHR 0x27] @ ''str'' @ [CHR 0x27])), [])
   \<and> push_to_ACS py (default_config\<lparr>OPENAI_PROMPT_KEYS := ''summary:Edm.String:x''\<rparr>) post
       (PDict [(''metadata_storage_path'', PStr ''/a''), (''output'', PNone)])
       = (Inl (PyExn TypeError
                ([CHR 0x27] @ ''NoneType'' @ [CHR 0x27] @ '' object is not subscriptable'')), [])"
  by (simp add: push_to_ACS_def typed_field_def set_field_def quoted_def)

lemma push_to_ACS_posts:
  assumes "map_of kvs ''metadata_storage_path'' = Some path"
    and "map_of kvs ''output'' = Some out"
    and "out \<noteq> PList []"
  shows "posts (snd (push_to_ACS py cfg post (PDict kvs))) =
     (case map_fields py out
             (split_on CHR '','' (filter (\<lambda>c. c \<noteq> CHR '' '') (OPENAI_PROMPT_KEYS cfg)))
             [(''@search.action'', PStr ''merge''), (''metadata_storage_path'', path)] of
        Built body_value \<Rightarrow> [index_request cfg body_value]
      | Raises e \<Rightarrow> []
      | Returns status effects \<Rightarrow> [])"
proof -
  let ?r = "map_fields py out
             (split_on CHR '','' (filter (\<lambda>c. c \<noteq> CHR '' '') (OPENAI_PROMPT_KEYS cfg)))
             [(''@search.action'', PStr ''merge''), (''metadata_storage_path'', path)]"
  have returns: "\<And>entries bv0 status effects.
      map_fields py out entries bv0 = Returns status effects \<Longrightarrow> posts effects = []"
  proof -
    fix entries bv0 status effects
    show "map_fields py out entries bv0 = Returns status effects \<Longrightarrow> posts effects = []"
    proof (induction entries arbitrary: bv0)
      case Nil
      then show ?case by simp
    next
      case (Cons entry entries)
      then show ?case
        by (auto simp: typed_field_def split: sum.splits prod.splits fields_result.splits if_splits
            elim!: built.elims)
    qed
  qed
  show ?thesis
    using returns[of _ _ _ _]
    by (cases ?r) (auto simp: push_to_ACS_fields[OF assms] split: sum.splits prod.splits)
qed


lemma map_fields_stops:
  assumes "map_fields py out done bv0 = Built bv"
    and "split_on CHR '':'' entry = [key, ty, extra]"
    and "typed_field py out key ty bv = Raises e"
  shows "map_fields py out (done @ entry # rest) bv0 = Raises e"
  using assms by (simp add: map_fields_append)

lemma map_fields_returns:
  assumes "map_fields py out done bv0 = Built bv"
    and "split_on CHR '':'' entry = [key, ty, extra]"
    and "typed_field py out key ty bv = Returns status effects"
  shows "map_fields py out (done @ entry # rest) bv0 = Returns status effects"
  using assms by (simp add: map_fields_append)

text \<open>
  C2 (corrected). For a publish input holding \<^verbatim>\<open>metadata_storage_path\<close> and a non-empty
  \<^verbatim>\<open>output\<close>, at the first entry of the field specification that does not succeed:
  an unknown type tag makes \<^verbatim>\<open>push_to_ACS\<close> return 500 after an error line in the log; a
  source field that cannot be read (a missing key), or whose \<^verbatim>\<open>int\<close> or \<^verbatim>\<open>float\<close> cast raises,
  makes that exception leave \<^verbatim>\<open>push_to_ACS\<close>, and no status is returned. In each of these
  cases nothing is posted to the index. Whatever the input, either nothing is posted or
  the one document posted carries the key of every entry of the specification.
\<close>

theorem push_to_ACS_field_failures:
  assumes "map_of kvs ''metadata_storage_path'' = Some path"
    and "map_of kvs ''output'' = Some out"
    and "out \<noteq> PList []"
  shows
    "(\<forall>done entry rest bv key ty extra.
        split_on CHR '','' (filter (\<lambda>c. c \<noteq> CHR '' '') (OPENAI_PROMPT_KEYS cfg)) = done @ entry # rest
        \<and> map_fields py out done
             [(''@search.action'', PStr ''merge''), (''metadata_storage_path'', path)] = Built bv
        \<and> split_on CHR '':'' entry = [key, ty, extra]
        \<longrightarrow>
          (ty \<notin> {''Edm.String'', ''Edm.Int32'', ''Edm.Int64'', ''Edm.Double'', ''Edm.Boolean''} \<longrightarrow>
             push_to_ACS py cfg post (PDict kvs) =
               (Inr 500,
                [LogError (''Invalid search type '' @ ty @ '' for key '' @ key @ ''.'')]))
        \<and> (ty \<in> {''Edm.String'', ''Edm.Int32'', ''Edm.Int64'', ''Edm.Double'', ''Edm.Boolean''} \<longrightarrow>
             (\<forall>e. getitem out key = Inl e \<longrightarrow>
                  push_to_ACS py cfg post (PDict kvs) = (Inl e, [])))
        \<and> (ty \<in> {''Edm.Int32'', ''Edm.Int64''} \<longrightarrow>
             (\<forall>x e. getitem out key = Inr x \<and> py_int py x = Inl e \<longrightarrow>
                  push_to_ACS py cfg post (PDict kvs) = (Inl e, [])))
        \<and> (ty = ''Edm.Double'' \<longrightarrow>
             (\<forall>x e. getitem out key = Inr x \<and> py_float py x = Inl e \<longrightarrow>
                  push_to_ACS py cfg post (PDict kvs) = (Inl e, []))))
     \<and> (posts (snd (push_to_ACS py cfg post (PDict kvs))) = []
        \<or> (\<exists>bv. posts (snd (push_to_ACS py cfg post (PDict kvs))) = [index_request cfg bv]
              \<and> (\<forall>entry \<in> set (split_on CHR '','' (filter (\<lambda>c. c \<noteq> CHR '' '') (OPENAI_PROMPT_KEYS cfg))).
                    \<exists>key ty extra. split_on CHR '':'' entry = [key, ty, extra]
                       \<and> key \<in> fst ` set bv)))"
proof (intro conjI allI impI; (elim conjE)?)
  fix "done" entry rest bv key ty extra
  assume es: "split_on CHR '','' (filter (\<lambda>c. c \<noteq> CHR '' '') (OPENAI_PROMPT_KEYS cfg)) = done @ entry # rest"
    and d: "map_fields py out done
             [(''@search.action'', PStr ''merge''), (''metadata_storage_path'', path)] = Built bv"
    and sp: "split_on CHR '':'' entry = [key, ty, extra]"
  {
    assume "ty \<notin> {''Edm.String'', ''Edm.Int32'', ''Edm.Int64'', ''Edm.Double'', ''Edm.Boolean''}"
    from map_fields_returns[OF d sp typed_field_unknown[OF this], of rest]
    show "push_to_ACS py cfg post (PDict kvs) =
               (Inr 500,
                [LogError (''Invalid search type '' @ ty @ '' for key '' @ key @ ''.'')])"
      by (simp add: push_to_ACS_fields[OF assms] es)
  }
  {
    fix e
    assume "ty \<in> {''Edm.String'', ''Edm.Int32'', ''Edm.Int64'', ''Edm.Double'', ''Edm.Boolean''}"
      and "getitem out key = Inl e"
    from map_fields_stops[OF d sp typed_field_lookup_fails[OF this], of rest]
    show "push_to_ACS py cfg post (PDict kvs) = (Inl e, [])"
      by (simp add: push_to_ACS_fields[OF assms] es)
  }
  {
    fix x e
    assume "ty \<in> {''Edm.Int32'', ''Edm.Int64''}"
      and "getitem out key = Inr x" and "py_int py x = Inl e"
    from map_fields_stops[OF d sp typed_field_int_fails[OF this], of rest]
    show "push_to_ACS py cfg post (PDict kvs) = (Inl e, [])"
      by (simp add: push_to_ACS_fields[OF assms] es)
  }
  {
    fix x e
    assume "ty = ''Edm.Double''"
      and "getitem out key = Inr x" and "py_float py x = Inl e"
    from map_fields_stops[OF d sp[unfolded this(1)] typed_field_float_fails[OF this(2,3)], of rest]
    show "push_to_ACS py cfg post (PDict kvs) = (Inl e, [])"
      by (simp add: push_to_ACS_fields[OF assms] es)
  }
next
  let ?es = "split_on CHR '','' (filter (\<lambda>c. c \<noteq> CHR '' '') (OPENAI_PROMPT_KEYS cfg))"
  let ?r = "map_fields py out ?es
             [(''@search.action'', PStr ''merge''), (''metadata_storage_path'', path)]"
  show "posts (snd (push_to_ACS py cfg post (PDict kvs))) = []
        \<or> (\<exists>bv. posts (snd (push_to_ACS py cfg post (PDict kvs))) = [index_request cfg bv]
              \<and> (\<forall>entry \<in> set ?es.
                    \<exists>key ty extra. split_on CHR '':'' entry = [key, ty, extra]
                       \<and> key \<in> fst ` set bv))"
  proof (cases ?r)
    case (Built bv)
    from map_fields_keys[OF this] push_to_ACS_posts[OF assms, of py cfg post] Built
    show ?thesis by auto
  qed (simp_all add: push_to_ACS_posts[OF assms])
qed


text \<open>
  The claim C2 as stated fails: with the specification \<^verbatim>\<open>summary:Edm.String:x\<close> and an output
  that has no \<^verbatim>\<open>summary\<close>, \<^verbatim>\<open>push_to_ACS\<close> raises \<^verbatim>\<open>KeyError\<close> and returns no status 500,
  whatever the builtins and the index do.
\<close>

theorem push_to_ACS_missing_field_counterexample:
  "\<forall>py post.
     push_to_ACS py (default_config\<lparr>OPENAI_PROMPT_KEYS := ''summary:Edm.String:x''\<rparr>) post
       (PDict [(''metadata_storage_path'', PStr ''/a''),
               (''output'', PDict [(''other'', PStr ''x'')])])
     = (Inl (PyExn KeyError ([CHR 0x27] @ ''summary'' @ [CHR 0x27])), [])"
  by (simp add: push_to_ACS_def typed_field_def set_field_def quoted_def)

theorem push_to_ACS_field_failures_witness:
  "\<forall>py.
     push_to_ACS py
       (default_config\<lparr>OPENAI_PROMPT_KEYS := ''summary:Edm.String:x, score:Edm.Float:y''\<rparr>) index_ok
       (PDict [(''metadata_storage_path'', PStr ''/a''),
               (''output'', PDict [(''summary'', PStr ''hi''), (''score'', PInt 1)])])
       = (Inr 500, [LogError ''Invalid search type Edm.Float for key score.''])
   \<and> push_to_ACS py (default_config\<lparr>OPENAI_PROMPT_KEYS := ''title:Edm.String:x''\<rparr>) index_ok
       (PDict [(''metadata_storage_path'', PStr ''/a''),
               (''output'', PDict [(''summary'', PStr ''hi'')])])
       = (Inl (PyExn KeyError ([CHR 0x27] @ ''title'' @ [CHR 0x27])), [])
   \<and> push_to_ACS
       (py\<lparr>py_int := (py_int py)
              (PStr ''abc'' := Inl (PyExn ValueError ''invalid literal for int() with base 10''))\<rparr>)
       (default_config\<lparr>OPENAI_PROMPT_KEYS := ''count:Edm.Int32:x''\<rparr>) index_ok
       (PDict [(''metadata_storage_path'', PStr ''/a''),
               (''output'', PDict [(''count'', PStr ''abc'')])])
       = (Inl (PyExn ValueError ''invalid literal for int() with base 10''), [])
   \<and> push_to_ACS
       (py\<lparr>py_float := (py_float py)
              (PStr ''abc'' := Inl (PyExn ValueError ''could not convert string to float''))\<rparr>)
       (default_config\<lparr>OPENAI_PROMPT_KEYS := ''ratio:Edm.Double:x''\<rparr>) index_ok
       (PDict [(''metadata_storage_path'', PStr ''/a''),
               (''output'', PDict [(''ratio'', PStr ''abc'')])])
       = (Inl (PyExn ValueError ''could not convert string to float''), [])
   \<and> posts (snd (push_to_ACS py (default_config\<lparr>OPENAI_PROMPT_KEYS := ''summary:Edm.String:x''\<rparr>)
         index_ok
         (PDict [(''metadata_storage_path'', PStr ''/a''),
                 (''output'', PDict [(''summary'', PStr ''hi'')])])))
       = [index_request (default_config\<lparr>OPENAI_PROMPT_KEYS := ''summary:Edm.String:x''\<rparr>)
            [(''@search.action'', PStr ''merge''), (''metadata_storage_path'', PStr ''/a''),
             (''summary'', PStr (py_str py (PStr ''hi'')))]]"
proof (intro allI conjI)
  fix py
  let ?bv0 = "[(''@search.action'', PStr ''merge''), (''metadata_storage_path'', PStr ''/a'')]"
  show "push_to_ACS py
       (default_config\<lparr>OPENAI_PROMPT_KEYS := ''summary:Edm.String:x, score:Edm.Float:y''\<rparr>) index_ok
       (PDict [(''metadata_storage_path'', PStr ''/a''),
               (''output'', PDict [(''summary'', PStr ''hi''), (''score'', PInt 1)])])
       = (Inr 500, [LogError ''Invalid search type Edm.Float for key score.''])"
    using push_to_ACS_field_failures
      [of "[(''metadata_storage_path'', PStr ''/a''),
               (''output'', PDict [(''summary'', PStr ''hi''), (''score'', PInt 1)])]"
          "PStr ''/a''" "PDict [(''summary'', PStr ''hi''), (''score'', PInt 1)]"
          "default_config\<lparr>OPENAI_PROMPT_KEYS := ''summary:Edm.String:x, score:Edm.Float:y''\<rparr>"
          py index_ok,
       THEN conjunct1, rule_format,
       of "[''summary:Edm.String:x'']" "''score:Edm.Float:y''" "[]"
          "?bv0 @ [(''summary'', PStr (py_str py (PStr ''hi'')))]" "''score''" "''Edm.Float''" "''y''",
       THEN conjunct1]
    by (simp add: typed_field_def set_field_def)
  show "push_to_ACS py (default_config\<lparr>OPENAI_PROMPT_KEYS := ''title:Edm.String:x''\<rparr>) index_ok
       (PDict [(''metadata_storage_path'', PStr ''/a''),
               (''output'', PDict [(''summary'', PStr ''hi'')])])
       = (Inl (PyExn KeyError ([CHR 0x27] @ ''title'' @ [CHR 0x27])), [])"
    using push_to_ACS_field_failures
      [of "[(''metadata_storage_path'', PStr ''/a''),
               (''output'', PDict [(''summary'', PStr ''hi'')])]"
          "PStr ''/a''" "PDict [(''summary'', PStr ''hi'')]"
          "default_config\<lparr>OPENAI_PROMPT_KEYS := ''title:Edm.String:x''\<rparr>"
          py index_ok,
       THEN conjunct1, rule_format,
       of "[]" "''title:Edm.String:x''" "[]" ?bv0 "''title''" "''Edm.String''" "''x''",
       THEN conjunct2, THEN conjunct1, rule_format,
       of "PyExn KeyError ([CHR 0x27] @ ''title'' @ [CHR 0x27])"]
    by (simp add: quoted_def)
  show "push_to_ACS
       (py\<lparr>py_int := (py_int py)
              (PStr ''abc'' := Inl (PyExn ValueError ''invalid literal for int() with base 10''))\<rparr>)
       (default_config\<lparr>OPENAI_PROMPT_KEYS := ''count:Edm.Int32:x''\<rparr>) index_ok
       (PDict [(''metadata_storage_path'', PStr ''/a''),
               (''output'', PDict [(''count'', PStr ''abc'')])])
       = (Inl (PyExn ValueError ''invalid literal for int() with base 10''), [])"
    using push_to_ACS_field_failures
      [of "[(''metadata_storage_path'', PStr ''/a''),
               (''output'', PDict [(''count'', PStr ''abc'')])]"
          "PStr ''/a''" "PDict [(''count'', PStr ''abc'')]"
          "default_config\<lparr>OPENAI_PROMPT_KEYS := ''count:Edm.Int32:x''\<rparr>"
          "py\<lparr>py_int := (py_int py)
              (PStr ''abc'' := Inl (PyExn ValueError ''invalid literal for int() with base 10''))\<rparr>"
          index_ok,
       THEN conjunct1, rule_format,
       of "[]" "''count:Edm.Int32:x''" "[]" ?bv0 "''count''" "''Edm.Int32''" "''x''",
       THEN conjunct2, THEN conjunct2, THEN conjunct1, rule_format,
       of "PStr ''abc''" "PyExn ValueError ''invalid literal for int() with base 10''"]
    by simp
  show "push_to_ACS
       (py\<lparr>py_float := (py_float py)
              (PStr ''abc'' := Inl (PyExn ValueError ''could not convert string to float''))\<rparr>)
       (default_config\<lparr>OPENAI_PROMPT_KEYS := ''ratio:Edm.Double:x''\<rparr>) index_ok
       (PDict [(''metadata_storage_path'', PStr ''/a''),
               (''output'', PDict [(''ratio'', PStr ''abc'')])])
       = (Inl (PyExn ValueError ''could not convert string to float''), [])"
    using push_to_ACS_field_failures
      [of "[(''metadata_storage_path'', PStr ''/a''),
               (''output'', PDict [(''ratio'', PStr ''abc'')])]"
          "PStr ''/a''" "PDict [(''ratio'', PStr ''abc'')]"
          "default_config\<lparr>OPENAI_PROMPT_KEYS := ''ratio:Edm.Double:x''\<rparr>"
          "py\<lparr>py_float := (py_float py)
              (PStr ''abc'' := Inl (PyExn ValueError ''could not convert string to float''))\<rparr>"
          index_ok,
       THEN conjunct1, rule_format,
       of "[]" "''ratio:Edm.Double:x''" "[]" ?bv0 "''ratio''" "''Edm.Double''" "''x''",
       THEN conjunct2, THEN conjunct2, THEN conjunct2, rule_format,
       of "PStr ''abc''" "PyExn ValueError ''could not convert string to float''"]
    by simp
  show "posts (snd (push_to_ACS py (default_config\<lparr>OPENAI_PROMPT_KEYS := ''summary:Edm.String:x''\<rparr>)
         index_ok
         (PDict [(''metadata_storage_path'', PStr ''/a''),
                 (''output'', PDict [(''summary'', PStr ''hi'')])])))
       = [index_request (default_config\<lparr>OPENAI_PROMPT_KEYS := ''summary:Edm.String:x''\<rparr>)
            [(''@search.action'', PStr ''merge''), (''metadata_storage_path'', PStr ''/a''),
             (''summary'', PStr (py_str py (PStr ''hi'')))]]"
    by (simp add: push_to_ACS_def typed_field_def set_field_def index_ok_def)
qed

section \<open>Properties of the completion client\<close>

lemma retrying_run:
  "\<exists>k. run_ok stop wait jitter client req n tr (retrying stop wait jitter client req n tr) k"
proof (induction stop wait jitter client req n tr rule: retrying.induct)
  case (1 stop wait jitter client req n tr)
  let ?tr' = "tr\<lparr>calls_made := calls_made tr @ [req]\<rparr>"
  show ?case
  proof (cases "client (calls_made tr) req")
    case (Inr s)
    then have "retrying stop wait jitter client req n tr = (Returned s, ?tr')"
      by (subst retrying.simps) simp
    then have "run_ok stop wait jitter client req n tr (retrying stop wait jitter client req n tr) 1"
      using Inr by (simp add: run_ok_def)
    then show ?thesis ..
  next
    case (Inl e)
    show ?thesis
    proof (cases "is_Exception e")
      case False
      then have "retrying stop wait jitter client req n tr = (Reraised e, ?tr')"
        using Inl by (subst retrying.simps) simp
      then have "run_ok stop wait jitter client req n tr (retrying stop wait jitter client req n tr) 1"
        using Inl False by (simp add: run_ok_def)
      then show ?thesis ..
    next
      case True
      show ?thesis
      proof (cases "n \<ge> stop")
        case t: True
        then have "retrying stop wait jitter client req n tr = (RetryError e, ?tr')"
          using Inl True by (subst retrying.simps) simp
        then have "run_ok stop wait jitter client req n tr (retrying stop wait jitter client req n tr) 1"
          using Inl True t by (simp add: run_ok_def)
        then show ?thesis ..
      next
        case f: False
        let ?tr2 = "?tr'\<lparr>waits := waits ?tr' @ [wait (jitter n) n]\<rparr>"
        have eq: "retrying stop wait jitter client req n tr =
                  retrying stop wait jitter client req (Suc n) ?tr2"
          using Inl True f by (subst retrying.simps) simp
        from "1.IH"[OF refl Inl _ f] True
        obtain k where k: "run_ok stop wait jitter client req (Suc n) ?tr2
            (retrying stop wait jitter client req (Suc n) ?tr2) k"
          by auto
        let ?res = "retrying stop wait jitter client req (Suc n) ?tr2"
        have k1: "1 \<le> k" and k2: "k \<le> stop - Suc n + 1" using k by (simp_all add: run_ok_def)
        have c: "calls_made (snd ?res) = calls_made tr @ replicate (Suc k) req"
          using k by (simp add: run_ok_def replicate_app_Cons_same)
        have up: "[n ..< n + Suc k - 1] = n # [Suc n ..< Suc n + k - 1]"
          using k1 by (simp add: upt_conv_Cons)
        have w: "waits (snd ?res) = waits tr @ map (\<lambda>i. wait (jitter i) i) [n ..< n + Suc k - 1]"
          using k unfolding up by (simp add: run_ok_def)
        have shift: "\<And>i. client (calls_made tr @ replicate (Suc i) req) req =
                          client (calls_made ?tr2 @ replicate i req) req"
          by (simp add: replicate_app_Cons_same)
        have fl: "\<forall>i < Suc k - 1. \<exists>e. client (calls_made tr @ replicate i req) req = Inl e \<and> is_Exception e"
        proof (intro allI impI)
          fix i assume i: "i < Suc k - 1"
          show "\<exists>e. client (calls_made tr @ replicate i req) req = Inl e \<and> is_Exception e"
          proof (cases i)
            case 0
            then show ?thesis using Inl True by simp
          next
            case (Suc j)
            then have "j < k - 1" using i by simp
            then show ?thesis using k unfolding Suc shift by (simp add: run_ok_def)
          qed
        qed
        have kk: "Suc k - 1 = Suc (k - 1)" using k1 by simp
        have last: "case fst ?res of
          Returned s \<Rightarrow> client (calls_made tr @ replicate (Suc k - 1) req) req = Inr s
        | Reraised e \<Rightarrow> client (calls_made tr @ replicate (Suc k - 1) req) req = Inl e \<and> \<not> is_Exception e
        | RetryError e \<Rightarrow> client (calls_made tr @ replicate (Suc k - 1) req) req = Inl e
              \<and> is_Exception e \<and> stop \<le> n + Suc k - 1"
          using k k1 unfolding kk shift
          by (auto simp: run_ok_def split: retry_result.splits)
        have "run_ok stop wait jitter client req n tr (retrying stop wait jitter client req n tr) (Suc k)"
          unfolding eq run_ok_def
          using c w fl last k2 f by simp
        then show ?thesis ..
      qed
    qed
  qed
qed









text \<open>
  C4 (the code departs from the claim). The chat strategy does not read the generation
  settings: the request is the same whatever \<^verbatim>\<open>TEMPERATURE\<close>, \<^verbatim>\<open>MAX_TOKENS\<close>, \<^verbatim>\<open>TOP_P\<close>,
  \<^verbatim>\<open>FREQUENCY_PENALTY\<close> and \<^verbatim>\<open>PRESENCE_PENALTY\<close> are; it carries the literals 0.7, 800 and
  0.95 and no penalty at all. With \<^verbatim>\<open>TEMPERATURE\<close> set to 0.2 the request still has 0.7.
\<close>

theorem chat_request_ignores_generation_settings:
  "chat_request (cfg\<lparr>TEMPERATURE := t, MAX_TOKENS := m, TOP_P := p,
                      FREQUENCY_PENALTY := f, PRESENCE_PENALTY := q\<rparr>) text prompt
     = chat_request cfg text prompt
   \<and> map_of (kwargs (chat_request cfg text prompt)) ''temperature'' = Some (PFloat 0.7)
   \<and> map_of (kwargs (chat_request cfg text prompt)) ''max_tokens'' = Some (PInt 800)
   \<and> map_of (kwargs (chat_request cfg text prompt)) ''top_p'' = Some (PFloat 0.95)
   \<and> map_of (kwargs (chat_request cfg text prompt)) ''frequency_penalty'' = None
   \<and> map_of (kwargs (chat_request cfg text prompt)) ''presence_penalty'' = None
   \<and> map_of (kwargs (chat_request (default_config\<lparr>TEMPERATURE := 0.2\<rparr>) ''hello'' ''''))
        ''temperature''
       \<noteq> Some (PFloat (TEMPERATURE (default_config\<lparr>TEMPERATURE := 0.2\<rparr>)))"
  by (simp add: chat_request_def Let_def)

text \<open>
  The claim C10 as stated fails: with \<^verbatim>\<open>PROMPT\<close> configured as the empty string, an empty
  override sends an empty system prompt to the backend.
\<close>

theorem empty_prompt_override_counterexample:
  "chat_request (default_config\<lparr>PROMPT := ''''\<rparr>) ''hello'' '''' =
     Call ''chat.completions.create''
       [(''model'', PStr ''gpt-4o''),
        (''messages'',
           PList [PDict [(''role'', PStr ''system''), (''content'', PStr '''')],
                  PDict [(''role'', PStr ''user''), (''content'', PStr ''hello'')]]),
        (''temperature'', PFloat 0.7),
        (''max_tokens'', PInt 800),
        (''top_p'', PFloat 0.95),
        (''stop'', PNone)]"
  by (simp add: chat_request_def default_config_def)

lemma get_openai_response_calls:
  "\<exists>k. calls_made (snd (get_openai_response cfg client jitter history text prompt)) =
        history @ replicate k (if MODEL_TYPE cfg = ''chat'' then chat_request cfg text prompt
                               else completion_request cfg text prompt)"
proof -
  have "\<And>req. \<exists>k. calls_made (snd (retrying 6 (wait_random_exponential 1 20) jitter client req 1
                 \<lparr>calls_made = history, waits = []\<rparr>)) = history @ replicate k req"
  proof -
    fix req
    from retrying_run[of 6 "wait_random_exponential 1 20" jitter client req 1
           "\<lparr>calls_made = history, waits = []\<rparr>"]
    show "\<exists>k. calls_made (snd (retrying 6 (wait_random_exponential 1 20) jitter client req 1
                 \<lparr>calls_made = history, waits = []\<rparr>)) = history @ replicate k req"
      by (auto simp: run_ok_def)
  qed
  then show ?thesis
    by (simp add: get_openai_response_def get_openai_completion_def get_openai_chat_completion_def)
qed

text \<open>
  C10 (corrected). With an empty prompt override, the completion strategy sends the text,
  a colon, two newlines and \<^verbatim>\<open>PROMPT\<close>, the chat strategy sends \<^verbatim>\<open>PROMPT\<close> as the system
  message, and every call of \<^verbatim>\<open>get_openai_response\<close> is that request; when the configured
  \<^verbatim>\<open>PROMPT\<close> is not empty, the system prompt sent is not empty.
\<close>

theorem empty_prompt_override_uses_PROMPT:
  "map_of (kwargs (completion_request cfg text '''')) ''prompt'' =
     Some (PStr (text @ [CHR '':'', CHR 0x0A, CHR 0x0A] @ PROMPT cfg))
   \<and> map_of (kwargs (chat_request cfg text '''')) ''messages'' =
     Some (PList [PDict [(''role'', PStr ''system''), (''content'', PStr (PROMPT cfg))],
                  PDict [(''role'', PStr ''user''), (''content'', PStr text)]])
   \<and> (\<exists>k. calls_made (snd (get_openai_response cfg client jitter history text '''')) =
        history @ replicate k (if MODEL_TYPE cfg = ''chat'' then chat_request cfg text ''''
                               else completion_request cfg text ''''))
   \<and> (PROMPT cfg \<noteq> '''' \<longrightarrow>
        (\<forall>p. map_of (kwargs (chat_request cfg text '''')) ''messages'' =
               Some (PList [PDict [(''role'', PStr ''system''), (''content'', PStr p)],
                            PDict [(''role'', PStr ''user''), (''content'', PStr text)]])
             \<longrightarrow> p \<noteq> ''''))"
  using get_openai_response_calls[of cfg client jitter history "text" "''''"]
  by (simp add: completion_request_def chat_request_def Let_def)

theorem empty_prompt_override_uses_PROMPT_witness:
  "PROMPT default_config \<noteq> ''''
   \<and> map_of (kwargs (chat_request default_config ''hello'' '''')) ''messages'' =
     Some (PList [PDict [(''role'', PStr ''system''), (''content'', PStr default_prompt)],
                  PDict [(''role'', PStr ''user''), (''content'', PStr ''hello'')]])
   \<and> map_of (kwargs (completion_request default_config ''hello'' '''')) ''prompt'' =
     Some (PStr (''hello'' @ [CHR '':'', CHR 0x0A, CHR 0x0A] @ default_prompt))"
  using empty_prompt_override_uses_PROMPT[of default_config "''hello''"]
  by (simp add: default_config_def default_prompt_def)

end
